theory Spec2Isabelle
  imports Complex_Main
begin

section \<open>Values shared by the components\<close>

text \<open>
  A caller-supplied notification callback (\<^verbatim>\<open>() => void\<close>) acts on the caller's world
  \<open>'w\<close> and either returns or throws a value of type \<open>'e\<close>. What it did to the world
  before throwing is kept, so the outcome is paired with the world it leaves behind.
\<close>

type_synonym ('w, 'e) callback = "'w \<Rightarrow> ('e + unit) \<times> 'w"

text \<open>
  An optional property of a props object. Spreading an object copies every property it
  owns, also one whose value is \<^verbatim>\<open>undefined\<close>, so a property that is absent and one
  that is present with the value \<^verbatim>\<open>undefined\<close> are told apart.
\<close>

datatype 'a property = Absent | Undefined | Value 'a

text \<open>A destructuring default (\<^verbatim>\<open>x = d\<close>) applies when the property is absent or undefined.\<close>

fun withDefault :: "'a property \<Rightarrow> 'a \<Rightarrow> 'a" where
  "withDefault (Value v) d = v"
| "withDefault Absent d = d"
| "withDefault Undefined d = d"

text \<open>The value a property read yields: \<^verbatim>\<open>undefined\<close> is \<open>None\<close>.\<close>

fun readProp :: "'a property \<Rightarrow> 'a option" where
  "readProp (Value v) = Some v"
| "readProp Absent = None"
| "readProp Undefined = None"

text \<open>
  Object spread of one property: \<^verbatim>\<open>{k: own, ...bag}\<close> keeps \<open>own\<close> only when the bag
  does not own \<open>k\<close>.
\<close>

fun spreadOver :: "'a property \<Rightarrow> 'a property \<Rightarrow> 'a property" where
  "spreadOver own Absent = own"
| "spreadOver own Undefined = Undefined"
| "spreadOver own (Value v) = Value v"

datatype react_node = Text string | MenuIcon | CloseIcon | Element string

datatype variant = Outlined | TextVariant | Contained

datatype button_color = Primary | Secondary | Error | Info | Success | Warning

datatype button_size = Small | Medium | Large

text \<open>\<^verbatim>\<open>number | string\<close>; the number is passed on and never computed with.\<close>

datatype dimension = Num real | Str string

section \<open>IconButton\<close>

text \<open>\<^verbatim>\<open>IconButtonProps\<close>; \<open>'h\<close> is the type of the click handler.\<close>

record 'h IconButtonProps =
  variant_ib :: "variant property"
  color_ib :: "button_color property"
  content_ib :: "react_node property"
  startIcon_ib :: "react_node property"
  endIcon_ib :: "react_node property"
  loading_ib :: "bool property"
  disabled_ib :: "bool property"
  onClick_ib :: "'h property"
  size_ib :: "button_size property"
  ariaLabel_ib :: "string property"

text \<open>The \<^verbatim>\<open><Button>\<close> element that \<^verbatim>\<open>IconButton\<close> returns.\<close>

record 'h Button =
  variant_b :: variant
  startIcon_b :: "react_node option"
  endIcon_b :: "react_node option"
  color_b :: button_color
  disabled_b :: bool
  loading_b :: bool
  onClick_b :: "'h option"
  size_b :: button_size
  ariaLabel_b :: "string option"
  children_b :: "react_node option"

definition IconButton :: "'h IconButtonProps \<Rightarrow> 'h Button" where
  "IconButton props =
     \<lparr> variant_b = withDefault (variant_ib props) Contained,
       startIcon_b = readProp (startIcon_ib props),
       endIcon_b = readProp (endIcon_ib props),
       color_b = withDefault (color_ib props) Primary,
       disabled_b = withDefault (disabled_ib props) False,
       loading_b = withDefault (loading_ib props) False,
       onClick_b = readProp (onClick_ib props),
       size_b = withDefault (size_ib props) Medium,
       ariaLabel_b = readProp (ariaLabel_ib props),
       children_b = readProp (content_ib props) \<rparr>"

text \<open>The props object with no property at all.\<close>

definition noButtonProps :: "'h IconButtonProps" where
  "noButtonProps =
     \<lparr> variant_ib = Absent, color_ib = Absent, content_ib = Absent, startIcon_ib = Absent,
       endIcon_ib = Absent, loading_ib = Absent, disabled_ib = Absent, onClick_ib = Absent,
       size_ib = Absent, ariaLabel_ib = Absent \<rparr>"

text \<open>\<^verbatim>\<open>{...own, ...bag}\<close>, property by property.\<close>

definition spreadButtonProps :: "'h IconButtonProps \<Rightarrow> 'h IconButtonProps \<Rightarrow> 'h IconButtonProps" where
  "spreadButtonProps own bag =
     \<lparr> variant_ib = spreadOver (variant_ib own) (variant_ib bag),
       color_ib = spreadOver (color_ib own) (color_ib bag),
       content_ib = spreadOver (content_ib own) (content_ib bag),
       startIcon_ib = spreadOver (startIcon_ib own) (startIcon_ib bag),
       endIcon_ib = spreadOver (endIcon_ib own) (endIcon_ib bag),
       loading_ib = spreadOver (loading_ib own) (loading_ib bag),
       disabled_ib = spreadOver (disabled_ib own) (disabled_ib bag),
       onClick_ib = spreadOver (onClick_ib own) (onClick_ib bag),
       size_ib = spreadOver (size_ib own) (size_ib bag),
       ariaLabel_ib = spreadOver (ariaLabel_ib own) (ariaLabel_ib bag) \<rparr>"

section \<open>Drawer\<close>

datatype anchor = Left | Right | Top | Bottom

text \<open>
  \<^verbatim>\<open>DrawerProps\<close>. Every property is optional; the component reads each one through a
  destructuring default, an optional call or a truthiness test, none of which tells an
  absent property from an undefined one, so \<open>None\<close> stands for both.
\<close>

record ('w, 'e) DrawerProps =
  openProp :: "bool option"
  onClose :: "('w, 'e) callback option"
  onOpen :: "('w, 'e) callback option"
  title :: "string option"
  content :: "react_node option"
  openButton :: "bool option"
  closeButton :: "bool option"
  openButtonProps :: "('w, 'e) callback IconButtonProps option"
  position :: "anchor option"
  width :: "dimension option"

text \<open>
  The hook cells of one mounted instance: the \<^verbatim>\<open>useState\<close> cell, the identifier
  \<^verbatim>\<open>useId\<close> generated at mount, and the dependency list \<^verbatim>\<open>[open]\<close> the effect last
  ran with (\<open>None\<close> before the first run).
\<close>

record hooks =
  drawerOpen :: bool
  titleId :: string
  effectDeps :: "bool option"

text \<open>
  An event handler of the component: it may write the hook cells and call into the
  caller's world; an exception leaves it as \<open>Inl\<close>, with the writes made before it kept.
\<close>

type_synonym ('w, 'e) handler = "hooks \<times> 'w \<Rightarrow> ('e + unit) \<times> hooks \<times> 'w"

text \<open>\<^verbatim>\<open>cb?.()\<close>: the call is skipped when the callback is undefined.\<close>

definition optionalCall :: "('w, 'e) callback option \<Rightarrow> ('w, 'e) callback" where
  "optionalCall cb w = (case cb of None \<Rightarrow> (Inr (), w) | Some f \<Rightarrow> f w)"

definition handleDrawerToggle :: "('w, 'e) DrawerProps \<Rightarrow> bool \<Rightarrow> ('w, 'e) handler" where
  "handleDrawerToggle p isOpen = (\<lambda>(h, w).
     let h' = h\<lparr>drawerOpen := isOpen\<rparr>;
         (r, w') = (if isOpen then optionalCall (onOpen p) w else optionalCall (onClose p) w)
     in (r, h', w'))"

text \<open>
  A callback the caller put into \<^verbatim>\<open>openButtonProps\<close> runs as a handler of the button:
  it sees the caller's world and has no access to the hook cells.
\<close>

definition liftCallback :: "('w, 'e) callback \<Rightarrow> ('w, 'e) handler" where
  "liftCallback cb = (\<lambda>(h, w). let (r, w') = cb w in (r, h, w'))"

definition liftButtonProps ::
  "('w, 'e) callback IconButtonProps \<Rightarrow> ('w, 'e) handler IconButtonProps" where
  "liftButtonProps b =
     \<lparr> variant_ib = variant_ib b, color_ib = color_ib b, content_ib = content_ib b,
       startIcon_ib = startIcon_ib b, endIcon_ib = endIcon_ib b, loading_ib = loading_ib b,
       disabled_ib = disabled_ib b,
       onClick_ib = map_property liftCallback (onClick_ib b),
       size_ib = size_ib b, ariaLabel_ib = ariaLabel_ib b \<rparr>"

text \<open>The props object with every property omitted.\<close>

definition noDrawerProps :: "('w, 'e) DrawerProps" where
  "noDrawerProps =
     \<lparr> openProp = None, onClose = None, onOpen = None, title = None, content = None,
       openButton = None, closeButton = None, openButtonProps = None, position = None,
       width = None \<rparr>"

text \<open>The destructuring defaults of the component.\<close>

definition openInput :: "('w, 'e) DrawerProps \<Rightarrow> bool" where
  "openInput p = (case openProp p of None \<Rightarrow> False | Some b \<Rightarrow> b)"

definition openButtonInput :: "('w, 'e) DrawerProps \<Rightarrow> bool" where
  "openButtonInput p = (case openButton p of None \<Rightarrow> True | Some b \<Rightarrow> b)"

definition closeButtonInput :: "('w, 'e) DrawerProps \<Rightarrow> bool" where
  "closeButtonInput p = (case closeButton p of None \<Rightarrow> True | Some b \<Rightarrow> b)"

definition positionInput :: "('w, 'e) DrawerProps \<Rightarrow> anchor" where
  "positionInput p = (case position p of None \<Rightarrow> Left | Some a \<Rightarrow> a)"

definition widthInput :: "('w, 'e) DrawerProps \<Rightarrow> dimension" where
  "widthInput p = (case width p of None \<Rightarrow> Num 400 | Some d \<Rightarrow> d)"

text \<open>\<^verbatim>\<open>title ? ... : ...\<close>: an undefined title and the empty string are both falsy.\<close>

definition titleTruthy :: "('w, 'e) DrawerProps \<Rightarrow> bool" where
  "titleTruthy p = (case title p of None \<Rightarrow> False | Some s \<Rightarrow> s \<noteq> [])"

record sx_size =
  width_sx :: "dimension option"
  height_sx :: "dimension option"

definition isHorizontal :: "('w, 'e) DrawerProps \<Rightarrow> bool" where
  "isHorizontal p = (positionInput p = Left \<or> positionInput p = Right)"

definition drawerSize :: "('w, 'e) DrawerProps \<Rightarrow> sx_size" where
  "drawerSize p =
     (if isHorizontal p then \<lparr> width_sx = Some (widthInput p), height_sx = None \<rparr>
      else \<lparr> width_sx = None, height_sx = Some (widthInput p) \<rparr>)"

record PaperProps =
  role :: string
  aria_labelledby :: "string option"
  aria_label :: "string option"

text \<open>The \<^verbatim>\<open><Typography component="h2" id={titleId}>\<close> element holding the title.\<close>

record Typography =
  id_t :: string
  children_t :: string

text \<open>
  The element tree one render returns: the optional trigger button, then the
  \<^verbatim>\<open><MuiDrawer>\<close> with its props and, inside it, the sized box, the heading or the empty
  box that replaces it, the optional close button and the content.
\<close>

record ('w, 'e) DrawerView =
  trigger :: "('w, 'e) handler Button option"
  anchor_v :: anchor
  open_v :: bool
  onClose_v :: "('w, 'e) handler"
  PaperProps_v :: PaperProps
  drawerSize_v :: sx_size
  heading :: "Typography option"
  dismiss :: "('w, 'e) handler Button option"
  body :: "react_node option"

definition triggerProps :: "('w, 'e) DrawerProps \<Rightarrow> ('w, 'e) handler IconButtonProps" where
  "triggerProps p =
     spreadButtonProps
       (noButtonProps \<lparr> onClick_ib := Value (handleDrawerToggle p True),
                         ariaLabel_ib := Value ''Open drawer'' \<rparr>)
       (case openButtonProps p of None \<Rightarrow> noButtonProps | Some b \<Rightarrow> liftButtonProps b)"

definition dismissProps :: "('w, 'e) DrawerProps \<Rightarrow> ('w, 'e) handler IconButtonProps" where
  "dismissProps p =
     noButtonProps \<lparr> variant_ib := Value TextVariant,
                      onClick_ib := Value (handleDrawerToggle p False),
                      ariaLabel_ib := Value ''Close drawer'',
                      content_ib := Value CloseIcon \<rparr>"

definition Drawer :: "('w, 'e) DrawerProps \<Rightarrow> hooks \<Rightarrow> ('w, 'e) DrawerView" where
  "Drawer p h =
     \<lparr> trigger = (if openButtonInput p then Some (IconButton (triggerProps p)) else None),
       anchor_v = positionInput p,
       open_v = drawerOpen h,
       onClose_v = handleDrawerToggle p False,
       PaperProps_v =
         \<lparr> role = ''dialog'',
           aria_labelledby = (if titleTruthy p then Some (titleId h) else None),
           aria_label = (if titleTruthy p then None else Some ''Drawer'') \<rparr>,
       drawerSize_v = drawerSize p,
       heading =
         (case title p of
            None \<Rightarrow> None
          | Some s \<Rightarrow> if s \<noteq> [] then Some \<lparr> id_t = titleId h, children_t = s \<rparr> else None),
       dismiss = (if closeButtonInput p then Some (IconButton (dismissProps p)) else None),
       body = content p \<rparr>"

subsection \<open>The life of an instance\<close>

text \<open>\<^verbatim>\<open>useState(open)\<close> and \<^verbatim>\<open>useId()\<close> at the first render.\<close>

definition initialHooks :: "string \<Rightarrow> ('w, 'e) DrawerProps \<Rightarrow> hooks" where
  "initialHooks tid p = \<lparr> drawerOpen = openInput p, titleId = tid, effectDeps = None \<rparr>"

text \<open>The body of the effect: \<^verbatim>\<open>setDrawerOpen(open)\<close>.\<close>

definition syncEffect :: "('w, 'e) DrawerProps \<Rightarrow> ('w, 'e) handler" where
  "syncEffect p = (\<lambda>(h, w). (Inr (), h\<lparr>drawerOpen := openInput p\<rparr>, w))"

text \<open>
  \<^verbatim>\<open>useEffect(..., [open])\<close>: after a render the effect runs when it has never run or
  when \<^verbatim>\<open>open\<close> differs from the value it last ran with.
\<close>

definition runEffects :: "('w, 'e) DrawerProps \<Rightarrow> ('w, 'e) handler" where
  "runEffects p = (\<lambda>(h, w).
     if effectDeps h = Some (openInput p) then (Inr (), h, w)
     else (let (r, h', w') = syncEffect p (h, w)
           in (r, h'\<lparr>effectDeps := Some (openInput p)\<rparr>, w')))"

definition mount :: "string \<Rightarrow> ('w, 'e) DrawerProps \<Rightarrow> 'w \<Rightarrow> ('e + unit) \<times> hooks \<times> 'w" where
  "mount tid p w = runEffects p (initialHooks tid p, w)"

text \<open>A later render of the mounted instance, with the props the parent passes then.\<close>

definition rerender :: "('w, 'e) DrawerProps \<Rightarrow> ('w, 'e) handler" where
  "rerender p = runEffects p"

text \<open>
  A click event delivered to a button element calls its \<^verbatim>\<open>onClick\<close>, when it has
  one. A disabled or loading button is delivered no click, so \<open>click\<close> stands for the
  activations that do happen.
\<close>

definition click :: "('w, 'e) handler Button \<Rightarrow> ('w, 'e) handler" where
  "click b = (case onClick_b b of None \<Rightarrow> (\<lambda>(h, w). (Inr (), h, w)) | Some f \<Rightarrow> f)"

text \<open>
  The two requests of the panel: the trigger's own handler asks to open, the close
  button and the \<^verbatim>\<open>onClose\<close> of the \<^verbatim>\<open><MuiDrawer>\<close> (backdrop, escape) ask to close.
\<close>

datatype request = RequestOpen | RequestClose

fun handleRequest :: "('w, 'e) DrawerProps \<Rightarrow> request \<Rightarrow> ('w, 'e) handler" where
  "handleRequest p RequestOpen = handleDrawerToggle p True"
| "handleRequest p RequestClose = handleDrawerToggle p False"

text \<open>
  A sequence of requests on an instance whose props stay \<open>p\<close>: each request runs its
  handler, then the instance renders again. An exception of one handler is recorded and
  the later events are still delivered.
\<close>

fun runRequests ::
  "('w, 'e) DrawerProps \<Rightarrow> request list \<Rightarrow> hooks \<times> 'w \<Rightarrow> ('e + unit) list \<times> hooks \<times> 'w" where
  "runRequests p [] (h, w) = ([], h, w)"
| "runRequests p (r # rs) (h, w) =
     (let (out, h1, w1) = handleRequest p r (h, w);
          (_, h2, w2) = rerender p (h1, w1);
          (outs, h3, w3) = runRequests p rs (h2, w2)
      in (out # outs, h3, w3))"

text \<open>A sequence of renders with changing props, on a mounted instance.\<close>

fun runRenders :: "('w, 'e) DrawerProps list \<Rightarrow> hooks \<times> 'w \<Rightarrow> hooks \<times> 'w" where
  "runRenders [] (h, w) = (h, w)"
| "runRenders (p # ps) (h, w) = (let (_, h', w') = rerender p (h, w) in runRenders ps (h', w'))"

section \<open>NavBar\<close>

datatype appbar_position = Fixed | Absolute | Sticky | Static | Relative

datatype appbar_color =
  DefaultColor | InheritColor | PrimaryColor | SecondaryColor | TransparentColor
  | ErrorColor | InfoColor | SuccessColor | WarningColor

text \<open>
  The object a caller passes as \<^verbatim>\<open>drawerProps\<close>. The declared type is
  \<^verbatim>\<open>Omit<DrawerProps, 'open' | 'openButton' | 'openButtonProps'>\<close>, which names seven
  keys. The type is not exact: an object that also owns \<^verbatim>\<open>open\<close>, \<^verbatim>\<open>openButton\<close> or
  \<^verbatim>\<open>openButtonProps\<close> (a variable of type \<^verbatim>\<open>DrawerProps\<close>, for one) is assignable to it
  without a cast, and the spread copies every key the object owns. So the object is
  modelled with all ten keys, each absent, undefined or set.
\<close>

record ('w, 'e) DrawerPropsObject =
  open_o :: "bool property"
  onClose_o :: "('w, 'e) callback property"
  onOpen_o :: "('w, 'e) callback property"
  title_o :: "string property"
  content_o :: "react_node property"
  openButton_o :: "bool property"
  closeButton_o :: "bool property"
  openButtonProps_o :: "('w, 'e) callback IconButtonProps property"
  position_o :: "anchor property"
  width_o :: "dimension property"

text \<open>The object that owns no key.\<close>

definition noDrawerPropsObject :: "('w, 'e) DrawerPropsObject" where
  "noDrawerPropsObject =
     \<lparr> open_o = Absent, onClose_o = Absent, onOpen_o = Absent, title_o = Absent,
       content_o = Absent, openButton_o = Absent, closeButton_o = Absent,
       openButtonProps_o = Absent, position_o = Absent, width_o = Absent \<rparr>"

text \<open>\<^verbatim>\<open>{...own, ...bag}\<close>, key by key.\<close>

definition spreadDrawerProps ::
  "('w, 'e) DrawerPropsObject \<Rightarrow> ('w, 'e) DrawerPropsObject \<Rightarrow> ('w, 'e) DrawerPropsObject" where
  "spreadDrawerProps own bag =
     \<lparr> open_o = spreadOver (open_o own) (open_o bag),
       onClose_o = spreadOver (onClose_o own) (onClose_o bag),
       onOpen_o = spreadOver (onOpen_o own) (onOpen_o bag),
       title_o = spreadOver (title_o own) (title_o bag),
       content_o = spreadOver (content_o own) (content_o bag),
       openButton_o = spreadOver (openButton_o own) (openButton_o bag),
       closeButton_o = spreadOver (closeButton_o own) (closeButton_o bag),
       openButtonProps_o = spreadOver (openButtonProps_o own) (openButtonProps_o bag),
       position_o = spreadOver (position_o own) (position_o bag),
       width_o = spreadOver (width_o own) (width_o bag) \<rparr>"

text \<open>What the drawer reads from the props object it is given.\<close>

definition readDrawerProps :: "('w, 'e) DrawerPropsObject \<Rightarrow> ('w, 'e) DrawerProps" where
  "readDrawerProps obj =
     \<lparr> openProp = readProp (open_o obj), onClose = readProp (onClose_o obj),
       onOpen = readProp (onOpen_o obj), title = readProp (title_o obj),
       content = readProp (content_o obj), openButton = readProp (openButton_o obj),
       closeButton = readProp (closeButton_o obj),
       openButtonProps = readProp (openButtonProps_o obj),
       position = readProp (position_o obj), width = readProp (width_o obj) \<rparr>"

record ('w, 'e) NavBarProps =
  title_nb :: "string option"
  position_nb :: "appbar_position option"
  color_nb :: "appbar_color option"
  showMenu :: "bool option"
  drawerProps :: "('w, 'e) DrawerPropsObject option"
  children_nb :: "react_node option"

definition colorInput :: "('w, 'e) NavBarProps \<Rightarrow> appbar_color" where
  "colorInput np = (case color_nb np of None \<Rightarrow> PrimaryColor | Some c \<Rightarrow> c)"

definition showMenuInput :: "('w, 'e) NavBarProps \<Rightarrow> bool" where
  "showMenuInput np = (case showMenu np of None \<Rightarrow> True | Some b \<Rightarrow> b)"

text \<open>The \<^verbatim>\<open>openButtonProps\<close> object literal the bar passes to its drawer.\<close>

definition menuButtonProps :: "('w, 'e) NavBarProps \<Rightarrow> ('w, 'e) callback IconButtonProps" where
  "menuButtonProps np =
     noButtonProps \<lparr> content_ib := Value MenuIcon,
                      variant_ib := Value TextVariant,
                      size_ib := Value Large,
                      color_ib := Value (if colorInput np = PrimaryColor then Secondary else Primary),
                      ariaLabel_ib := Value ''Open navigation menu'' \<rparr>"

text \<open>
  The props of the \<^verbatim>\<open><Drawer>\<close> element: the three the bar sets itself, then
  \<^verbatim>\<open>{...drawerProps}\<close> over them. Spreading an undefined \<^verbatim>\<open>drawerProps\<close> adds nothing.
\<close>

definition navDrawerProps :: "('w, 'e) NavBarProps \<Rightarrow> ('w, 'e) DrawerProps" where
  "navDrawerProps np =
     readDrawerProps
       (spreadDrawerProps
          (noDrawerPropsObject \<lparr> open_o := Value False,
                                  openButton_o := Value True,
                                  openButtonProps_o := Value (menuButtonProps np) \<rparr>)
          (case drawerProps np of None \<Rightarrow> noDrawerPropsObject | Some d \<Rightarrow> d))"

record ('w, 'e) NavBarView =
  appBarPosition :: appbar_position
  appBarColor :: appbar_color
  drawer_nb :: "('w, 'e) DrawerProps option"
  titleText :: "string option"
  spacer :: bool
  rightSide :: "react_node option"

definition NavBar :: "('w, 'e) NavBarProps \<Rightarrow> ('w, 'e) NavBarView" where
  "NavBar np =
     (let titled = (case title_nb np of None \<Rightarrow> False | Some s \<Rightarrow> s \<noteq> [])
      in \<lparr> appBarPosition = (case position_nb np of None \<Rightarrow> Static | Some x \<Rightarrow> x),
           appBarColor = colorInput np,
           drawer_nb = (if showMenuInput np then Some (navDrawerProps np) else None),
           titleText = (if titled then title_nb np else None),
           spacer = (\<not> titled),
           rightSide = children_nb np \<rparr>)"

section \<open>Names used in the statements\<close>

text \<open>The callback a request notifies.\<close>

definition callbackOf :: "('w, 'e) DrawerProps \<Rightarrow> request \<Rightarrow> ('w, 'e) callback option" where
  "callbackOf p r = (case r of RequestOpen \<Rightarrow> onOpen p | RequestClose \<Rightarrow> onClose p)"

text \<open>
  Two concrete callbacks over a world that counts the calls made: one returns, one
  throws after counting.
\<close>

definition countingCallback :: "(nat, string) callback" where
  "countingCallback n = (Inr (), Suc n)"

definition throwingCallback :: "(nat, string) callback" where
  "throwingCallback n = (Inl ''boom'', Suc n)"

text \<open>The props object of the bar with every property omitted.\<close>

definition noNavBarProps :: "('w, 'e) NavBarProps" where
  "noNavBarProps =
     \<lparr> title_nb = None, position_nb = None, color_nb = None, showMenu = None,
       drawerProps = None, children_nb = None \<rparr>"

section \<open>Properties of the drawer\<close>

subsection \<open>What the handlers and the effect compute\<close>

lemma handleDrawerToggle_apply:
  "handleDrawerToggle p isOpen (h, w) =
     (fst (optionalCall (if isOpen then onOpen p else onClose p) w),
      h\<lparr>drawerOpen := isOpen\<rparr>,
      snd (optionalCall (if isOpen then onOpen p else onClose p) w))"
  by (simp add: handleDrawerToggle_def split: prod.splits)

subsection \<open>Requests\<close>

text \<open>
  C2. Whatever the current visibility, a request to open writes \<open>True\<close> into the
  visibility cell and calls \<^verbatim>\<open>onOpen\<close> when the caller gave one, and a request to close
  writes \<open>False\<close> and calls \<^verbatim>\<open>onClose\<close> when the caller gave one. Without a callback
  the world is untouched. The last two conjuncts are the repeated request: the panel is
  already in the requested state, the visibility stays there and the callback runs again.
\<close>

theorem request_sets_visibility_and_notifies:
  "handleRequest (p\<lparr>onOpen := Some cb\<rparr>) RequestOpen (h, w)
     = (fst (cb w), h\<lparr>drawerOpen := True\<rparr>, snd (cb w))
   \<and> handleRequest (p\<lparr>onOpen := None\<rparr>) RequestOpen (h, w)
     = (Inr (), h\<lparr>drawerOpen := True\<rparr>, w)
   \<and> handleRequest (p\<lparr>onClose := Some cb\<rparr>) RequestClose (h, w)
     = (fst (cb w), h\<lparr>drawerOpen := False\<rparr>, snd (cb w))
   \<and> handleRequest (p\<lparr>onClose := None\<rparr>) RequestClose (h, w)
     = (Inr (), h\<lparr>drawerOpen := False\<rparr>, w)
   \<and> handleRequest (p\<lparr>onOpen := Some cb\<rparr>) RequestOpen (h\<lparr>drawerOpen := True\<rparr>, w)
     = (fst (cb w), h\<lparr>drawerOpen := True\<rparr>, snd (cb w))
   \<and> handleRequest (p\<lparr>onClose := Some cb\<rparr>) RequestClose (h\<lparr>drawerOpen := False\<rparr>, w)
     = (fst (cb w), h\<lparr>drawerOpen := False\<rparr>, snd (cb w))"
  by (simp add: handleDrawerToggle_apply optionalCall_def)

subsection \<open>The effect and the hook cells\<close>

text \<open>
  The effect does nothing when \<^verbatim>\<open>open\<close> is the value it last ran with, and otherwise
  copies \<^verbatim>\<open>open\<close> into the visibility cell. After the mount and after every later
  render the recorded dependency is the \<^verbatim>\<open>open\<close> of that render, and no handler
  changes it.
\<close>

lemma runEffects_same:
  "effectDeps h = Some (openInput p) \<Longrightarrow> runEffects p (h, w) = (Inr (), h, w)"
  by (simp add: runEffects_def)

lemma runEffects_changed:
  "effectDeps h \<noteq> Some (openInput p) \<Longrightarrow>
   runEffects p (h, w) =
     (Inr (), h\<lparr>drawerOpen := openInput p, effectDeps := Some (openInput p)\<rparr>, w)"
  by (simp add: runEffects_def syncEffect_def)

lemma mount_apply:
  "mount tid p w =
     (Inr (), \<lparr>drawerOpen = openInput p, titleId = tid, effectDeps = Some (openInput p)\<rparr>, w)"
  by (simp add: mount_def initialHooks_def runEffects_def syncEffect_def)

lemma effectDeps_handleRequest:
  "effectDeps (fst (snd (handleRequest p r (h, w)))) = effectDeps h"
  by (cases r) (simp_all add: handleDrawerToggle_apply)

lemma effectDeps_rerender:
  "effectDeps (fst (snd (rerender p (h, w)))) = Some (openInput p)"
  by (simp add: rerender_def runEffects_def syncEffect_def)

subsection \<open>External changes of \<^verbatim>\<open>open\<close>\<close>

text \<open>
  C1. Let \<open>h\<close> be the hook cells of an instance whose last render had props \<open>p\<close>, and
  let the next render have props \<open>p'\<close> whose \<^verbatim>\<open>open\<close> differs from that of \<open>p\<close>. Then
  the render overwrites the visibility cell with the new \<^verbatim>\<open>open\<close>, whatever the cell
  held, and the surface is rendered with it. The world \<open>w\<close> comes back unchanged and no
  exception is reported, whatever callbacks \<open>p\<close> and \<open>p'\<close> carry: neither \<^verbatim>\<open>onOpen\<close>
  nor \<^verbatim>\<open>onClose\<close> is called, in either direction of the change.
\<close>

theorem external_open_change_is_silent:
  assumes "effectDeps h = Some (openInput p)"
    and "openInput p' \<noteq> openInput p"
  shows "rerender p' (h, w) =
           (Inr (), h\<lparr>drawerOpen := openInput p', effectDeps := Some (openInput p')\<rparr>, w)
         \<and> open_v (Drawer p' (fst (snd (rerender p' (h, w))))) = openInput p'"
  using assms by (simp add: rerender_def runEffects_changed Drawer_def)

text \<open>
  Both directions on a mounted instance whose callbacks count their calls: false to
  true with a counting \<^verbatim>\<open>onOpen\<close>, true to false with a counting \<^verbatim>\<open>onClose\<close>. The
  count stays 0.
\<close>

theorem external_open_change_is_silent_witness:
  "effectDeps (fst (snd (mount ''r1'' (noDrawerProps\<lparr>onOpen := Some countingCallback\<rparr>) 0)))
     = Some (openInput (noDrawerProps\<lparr>onOpen := Some countingCallback\<rparr>))
   \<and> openInput (noDrawerProps\<lparr>openProp := Some True, onOpen := Some countingCallback\<rparr>)
     \<noteq> openInput (noDrawerProps\<lparr>onOpen := Some countingCallback\<rparr>)
   \<and> rerender (noDrawerProps\<lparr>openProp := Some True, onOpen := Some countingCallback\<rparr>)
        (fst (snd (mount ''r1'' (noDrawerProps\<lparr>onOpen := Some countingCallback\<rparr>) 0)), 0)
     = (Inr (), \<lparr>drawerOpen = True, titleId = ''r1'', effectDeps = Some True\<rparr>, 0)
   \<and> effectDeps (fst (snd (mount ''r2''
        (noDrawerProps\<lparr>openProp := Some True, onClose := Some countingCallback\<rparr>) 0)))
     = Some (openInput (noDrawerProps\<lparr>openProp := Some True, onClose := Some countingCallback\<rparr>))
   \<and> openInput (noDrawerProps\<lparr>openProp := Some False, onClose := Some countingCallback\<rparr>)
     \<noteq> openInput (noDrawerProps\<lparr>openProp := Some True, onClose := Some countingCallback\<rparr>)
   \<and> rerender (noDrawerProps\<lparr>openProp := Some False, onClose := Some countingCallback\<rparr>)
        (fst (snd (mount ''r2''
           (noDrawerProps\<lparr>openProp := Some True, onClose := Some countingCallback\<rparr>) 0)), 0)
     = (Inr (), \<lparr>drawerOpen = False, titleId = ''r2'', effectDeps = Some False\<rparr>, 0)"
  using external_open_change_is_silent
    [of "fst (snd (mount ''r1'' (noDrawerProps\<lparr>onOpen := Some countingCallback\<rparr>) 0))"
        "noDrawerProps\<lparr>onOpen := Some countingCallback\<rparr>"
        "noDrawerProps\<lparr>openProp := Some True, onOpen := Some countingCallback\<rparr>" 0]
    external_open_change_is_silent
    [of "fst (snd (mount ''r2''
           (noDrawerProps\<lparr>openProp := Some True, onClose := Some countingCallback\<rparr>) 0))"
        "noDrawerProps\<lparr>openProp := Some True, onClose := Some countingCallback\<rparr>"
        "noDrawerProps\<lparr>openProp := Some False, onClose := Some countingCallback\<rparr>" 0]
  by (simp add: mount_apply openInput_def noDrawerProps_def)

subsection \<open>Sequences of requests\<close>

lemma handleRequest_apply:
  "handleRequest p r (h, w) =
     (fst (optionalCall (callbackOf p r) w),
      h\<lparr>drawerOpen := (r = RequestOpen)\<rparr>,
      snd (optionalCall (callbackOf p r) w))"
  by (cases r) (simp_all add: handleDrawerToggle_apply callbackOf_def)

lemma runRequests_hooks:
  "effectDeps h = Some (openInput p) \<Longrightarrow>
   fst (snd (runRequests p rs (h, w))) =
     h\<lparr>drawerOpen := foldl (\<lambda>v r. r = RequestOpen) (drawerOpen h) rs\<rparr>"
proof (induction rs arbitrary: h w)
  case Nil
  then show ?case by simp
next
  case (Cons r rs)
  let ?h1 = "h\<lparr>drawerOpen := (r = RequestOpen)\<rparr>"
  let ?w1 = "snd (optionalCall (callbackOf p r) w)"
  have deps: "effectDeps ?h1 = Some (openInput p)"
    using Cons.prems by simp
  have step: "fst (snd (runRequests p (r # rs) (h, w))) = fst (snd (runRequests p rs (?h1, ?w1)))"
    by (simp add: handleRequest_apply rerender_def runEffects_same [OF deps] split: prod.splits)
  show ?case
    unfolding step Cons.IH [OF deps] by simp
qed

lemma runRequests_world:
  "effectDeps h = Some (openInput p) \<Longrightarrow>
   snd (snd (runRequests p rs (h, w))) =
     foldl (\<lambda>w r. snd (optionalCall (callbackOf p r) w)) w rs"
proof (induction rs arbitrary: h w)
  case Nil
  then show ?case by simp
next
  case (Cons r rs)
  let ?h1 = "h\<lparr>drawerOpen := (r = RequestOpen)\<rparr>"
  let ?w1 = "snd (optionalCall (callbackOf p r) w)"
  have deps: "effectDeps ?h1 = Some (openInput p)"
    using Cons.prems by simp
  have step: "snd (snd (runRequests p (r # rs) (h, w))) = snd (snd (runRequests p rs (?h1, ?w1)))"
    by (simp add: handleRequest_apply rerender_def runEffects_same [OF deps] split: prod.splits)
  show ?case
    unfolding step Cons.IH [OF deps] by simp
qed

lemma runRequests_length: "length (fst (runRequests p rs (h, w))) = length rs"
proof (induction rs arbitrary: h w)
  case Nil
  show ?case by simp
next
  case (Cons r rs)
  obtain out h1 w1 where a: "handleRequest p r (h, w) = (out, h1, w1)"
    by (cases "handleRequest p r (h, w)") auto
  obtain x h2 w2 where b: "rerender p (h1, w1) = (x, h2, w2)"
    by (cases "rerender p (h1, w1)") auto
  have "fst (runRequests p (r # rs) (h, w)) = out # fst (runRequests p rs (h2, w2))"
    by (simp add: a b split: prod.splits)
  then show ?case
    by (simp add: Cons.IH)
qed

lemma foldl_last_wins:
  "foldl (\<lambda>v r. r = RequestOpen) v rs = (if rs = [] then v else last rs = RequestOpen)"
  by (induction rs arbitrary: v) simp_all

lemma runRequests_append:
  "runRequests p (rs @ ss) (h, w) =
     (fst (runRequests p rs (h, w))
        @ fst (runRequests p ss (snd (runRequests p rs (h, w)))),
      snd (runRequests p ss (snd (runRequests p rs (h, w)))))"
proof (induction rs arbitrary: h w)
  case Nil
  show ?case by simp
next
  case (Cons r rs)
  obtain out h1 w1 where a: "handleRequest p r (h, w) = (out, h1, w1)"
    by (cases "handleRequest p r (h, w)") auto
  obtain x h2 w2 where b: "rerender p (h1, w1) = (x, h2, w2)"
    by (cases "rerender p (h1, w1)") auto
  show ?case
    by (simp add: a b Cons.IH split: prod.splits)
qed

lemma runRequests_single:
  "effectDeps h = Some (openInput p) \<Longrightarrow>
   runRequests p [r] (h, w) =
     ([fst (optionalCall (callbackOf p r) w)],
      h\<lparr>drawerOpen := (r = RequestOpen)\<rparr>,
      snd (optionalCall (callbackOf p r) w))"
  by (simp add: handleRequest_apply rerender_def runEffects_same)

lemma runRequests_snoc:
  assumes "effectDeps h = Some (openInput p)"
  shows "fst (runRequests p (rs @ [r]) (h, w)) =
           fst (runRequests p rs (h, w))
             @ [fst (optionalCall (callbackOf p r) (snd (snd (runRequests p rs (h, w)))))]"
proof -
  obtain outs h1 w1 where a: "runRequests p rs (h, w) = (outs, h1, w1)"
    by (cases "runRequests p rs (h, w)") auto
  have "h1 = h\<lparr>drawerOpen := foldl (\<lambda>v r. r = RequestOpen) (drawerOpen h) rs\<rparr>"
    using runRequests_hooks [OF assms, of rs w] by (simp add: a)
  then have deps: "effectDeps h1 = Some (openInput p)"
    using assms by simp
  have step: "runRequests p [r] (h1, w1) =
      ([fst (optionalCall (callbackOf p r) w1)],
       h1\<lparr>drawerOpen := (r = RequestOpen)\<rparr>,
       snd (optionalCall (callbackOf p r) w1))"
    by (rule runRequests_single [OF deps])
  have "fst (runRequests p (rs @ [r]) (h, w)) = outs @ fst (runRequests p [r] (h1, w1))"
    by (simp only: runRequests_append a fst_conv snd_conv)
  then show ?thesis
    by (simp only: step a fst_conv snd_conv)
qed

text \<open>
  C3. Mount an instance with props \<open>p\<close> and apply any sequence of requests while the
  props stay \<open>p\<close>. The visibility the surface is then rendered with is the fold of the
  sequence over the seed, which is the \<^verbatim>\<open>open\<close> input or false when it is omitted: the
  seed when the sequence is empty, and otherwise whether the last request was a
  request to open, so a repeated request leaves the visibility where it is. Every
  request of the sequence calls its callback when the caller gave one: the world at
  the end is the world the callbacks produce when applied in order, one per request,
  and the outcome of a request that follows any sequence \<open>rs\<close> is the outcome of its
  callback on the world the sequence left (a return when there is no callback).
\<close>

theorem requests_fold_last_wins:
  "open_v (Drawer p (fst (snd (runRequests p rs (fst (snd (mount tid p w0)), w)))))
     = foldl (\<lambda>v r. r = RequestOpen) (case openProp p of None \<Rightarrow> False | Some b \<Rightarrow> b) rs
   \<and> open_v (Drawer p (fst (snd (runRequests p rs (fst (snd (mount tid p w0)), w)))))
     = (if rs = [] then (case openProp p of None \<Rightarrow> False | Some b \<Rightarrow> b)
        else last rs = RequestOpen)
   \<and> snd (snd (runRequests p rs (fst (snd (mount tid p w0)), w)))
     = foldl (\<lambda>w r. case (case r of RequestOpen \<Rightarrow> onOpen p | RequestClose \<Rightarrow> onClose p) of
                        None \<Rightarrow> w
                      | Some f \<Rightarrow> snd (f w)) w rs
   \<and> fst (runRequests p (rs @ [r]) (fst (snd (mount tid p w0)), w))
     = fst (runRequests p rs (fst (snd (mount tid p w0)), w))
         @ [case (case r of RequestOpen \<Rightarrow> onOpen p | RequestClose \<Rightarrow> onClose p) of
              None \<Rightarrow> Inr ()
            | Some f \<Rightarrow> fst (f (snd (snd (runRequests p rs (fst (snd (mount tid p w0)), w)))))]
   \<and> length (fst (runRequests p rs (fst (snd (mount tid p w0)), w))) = length rs"
proof -
  let ?h0 = "fst (snd (mount tid p w0))"
  let ?seed = "case openProp p of None \<Rightarrow> False | Some b \<Rightarrow> b"
  let ?cb = "\<lambda>r. case r of RequestOpen \<Rightarrow> onOpen p | RequestClose \<Rightarrow> onClose p"
  have deps: "effectDeps ?h0 = Some (openInput p)"
    by (simp add: mount_apply)
  have seed: "drawerOpen ?h0 = ?seed"
    by (simp add: mount_apply openInput_def)
  have vis: "open_v (Drawer p (fst (snd (runRequests p rs (?h0, w)))))
               = foldl (\<lambda>v r. r = RequestOpen) ?seed rs"
    by (simp add: runRequests_hooks [OF deps] seed Drawer_def)
  have call_w: "\<And>r v. snd (optionalCall (callbackOf p r) v)
                  = (case ?cb r of None \<Rightarrow> v | Some f \<Rightarrow> snd (f v))"
    by (simp add: optionalCall_def callbackOf_def split: option.splits)
  have call_o: "\<And>r v. fst (optionalCall (callbackOf p r) v)
                  = (case ?cb r of None \<Rightarrow> Inr () | Some f \<Rightarrow> fst (f v))"
    by (simp add: optionalCall_def callbackOf_def split: option.splits)
  have world: "snd (snd (runRequests p rs (?h0, w)))
                 = foldl (\<lambda>w r. case ?cb r of None \<Rightarrow> w | Some f \<Rightarrow> snd (f w)) w rs"
    by (simp add: runRequests_world [OF deps] call_w)
  have outs: "fst (runRequests p (rs @ [r]) (?h0, w))
                = fst (runRequests p rs (?h0, w))
                    @ [case ?cb r of None \<Rightarrow> Inr ()
                       | Some f \<Rightarrow> fst (f (snd (snd (runRequests p rs (?h0, w)))))]"
    by (simp only: runRequests_snoc [OF deps] call_o)
  have len: "length (fst (runRequests p rs (?h0, w))) = length rs"
    by (rule runRequests_length)
  have vis2: "open_v (Drawer p (fst (snd (runRequests p rs (?h0, w)))))
               = (if rs = [] then ?seed else last rs = RequestOpen)"
    unfolding vis by (rule foldl_last_wins)
  from vis vis2 world outs len show ?thesis
    by (intro conjI)
qed

text \<open>
  Four requests on a closed panel, the second a repeat: \<^verbatim>\<open>onOpen\<close> counts, \<^verbatim>\<open>onClose\<close>
  counts and throws. All four calls are counted and the panel ends open.
\<close>

lemma requests_example:
  "runRequests (noDrawerProps\<lparr>onOpen := Some countingCallback, onClose := Some throwingCallback\<rparr>)
     [RequestOpen, RequestOpen, RequestClose, RequestOpen]
     (\<lparr>drawerOpen = False, titleId = ''r1'', effectDeps = Some False\<rparr>, 0)
   = ([Inr (), Inr (), Inl ''boom'', Inr ()],
      \<lparr>drawerOpen = True, titleId = ''r1'', effectDeps = Some False\<rparr>, 4)"
  by (simp add: handleDrawerToggle_apply optionalCall_def rerender_def runEffects_def
      openInput_def noDrawerProps_def countingCallback_def throwingCallback_def)

subsection \<open>A callback that throws\<close>

text \<open>
  C8. When the callback the caller gave throws \<open>e\<close> and leaves the world \<open>w'\<close>, the
  handler ends with that same exception \<open>e\<close> and that same world: nothing is caught,
  replaced or added. The write of the visibility cell precedes the call, so the cell
  holds the requested value all the same. This holds for \<^verbatim>\<open>onOpen\<close> on a request to
  open and for \<^verbatim>\<open>onClose\<close> on a request to close.
\<close>

theorem throwing_callback_propagates:
  assumes "cb w = (Inl e, w')"
  shows "handleDrawerToggle (p\<lparr>onOpen := Some cb\<rparr>) True (h, w)
           = (Inl e, h\<lparr>drawerOpen := True\<rparr>, w')
         \<and> handleDrawerToggle (p\<lparr>onClose := Some cb\<rparr>) False (h, w)
           = (Inl e, h\<lparr>drawerOpen := False\<rparr>, w')"
  using assms by (simp add: handleDrawerToggle_apply optionalCall_def)

text \<open>The throwing callback on a closed panel and on an open one.\<close>

theorem throwing_callback_propagates_witness:
  "throwingCallback 0 = (Inl ''boom'', 1)
   \<and> handleDrawerToggle (noDrawerProps\<lparr>onOpen := Some throwingCallback\<rparr>) True
        (\<lparr>drawerOpen = False, titleId = ''r1'', effectDeps = Some False\<rparr>, 0)
     = (Inl ''boom'', \<lparr>drawerOpen = True, titleId = ''r1'', effectDeps = Some False\<rparr>, 1)
   \<and> handleDrawerToggle (noDrawerProps\<lparr>onClose := Some throwingCallback\<rparr>) False
        (\<lparr>drawerOpen = True, titleId = ''r1'', effectDeps = Some False\<rparr>, 0)
     = (Inl ''boom'', \<lparr>drawerOpen = False, titleId = ''r1'', effectDeps = Some False\<rparr>, 1)"
proof -
  have t: "throwingCallback 0 = (Inl ''boom'', 1)"
    by (simp add: throwingCallback_def)
  show ?thesis
    using t
      throwing_callback_propagates [of throwingCallback 0 "''boom''" 1 noDrawerProps
        "\<lparr>drawerOpen = False, titleId = ''r1'', effectDeps = Some False\<rparr>"]
      throwing_callback_propagates [of throwingCallback 0 "''boom''" 1 noDrawerProps
        "\<lparr>drawerOpen = True, titleId = ''r1'', effectDeps = Some False\<rparr>"]
    by simp
qed

subsection \<open>Sizing\<close>

text \<open>
  C5. With the anchor left or right the box inside the surface gets the supplied
  \<^verbatim>\<open>width\<close> value as its width and no height; with the anchor top or bottom it gets
  that value as its height and no width. This holds for every value, the positive ones
  among them. The size is computed from the props of the render alone: it is the same
  for any two states \<open>h\<close> and \<open>h'\<close> of the hook cells, and the last conjunct gives it
  as a function of the anchor.
\<close>

theorem sizing_follows_anchor:
  "drawerSize_v (Drawer (p\<lparr>position := Some Left, width := Some d\<rparr>) h)
     = \<lparr>width_sx = Some d, height_sx = None\<rparr>
   \<and> drawerSize_v (Drawer (p\<lparr>position := Some Right, width := Some d\<rparr>) h)
     = \<lparr>width_sx = Some d, height_sx = None\<rparr>
   \<and> drawerSize_v (Drawer (p\<lparr>position := Some Top, width := Some d\<rparr>) h)
     = \<lparr>width_sx = None, height_sx = Some d\<rparr>
   \<and> drawerSize_v (Drawer (p\<lparr>position := Some Bottom, width := Some d\<rparr>) h)
     = \<lparr>width_sx = None, height_sx = Some d\<rparr>
   \<and> drawerSize_v (Drawer p h) = drawerSize_v (Drawer p h')
   \<and> drawerSize_v (Drawer p h)
     = (case positionInput p of
          Left \<Rightarrow> \<lparr>width_sx = Some (widthInput p), height_sx = None\<rparr>
        | Right \<Rightarrow> \<lparr>width_sx = Some (widthInput p), height_sx = None\<rparr>
        | Top \<Rightarrow> \<lparr>width_sx = None, height_sx = Some (widthInput p)\<rparr>
        | Bottom \<Rightarrow> \<lparr>width_sx = None, height_sx = Some (widthInput p)\<rparr>)"
  by (simp add: Drawer_def drawerSize_def isHorizontal_def positionInput_def widthInput_def
      split: anchor.splits)

subsection \<open>The anchor\<close>

text \<open>
  C6 does not hold as stated. An instance is mounted with \<^verbatim>\<open>position\<close> left, where its
  surface is anchored left; the parent then renders it with \<^verbatim>\<open>position\<close> right, and
  the surface is anchored right, which is not the anchor the instance was created
  with.
\<close>

theorem anchor_fixed_counterexample:
  "anchor_v (Drawer (noDrawerProps\<lparr>position := Some Left\<rparr>)
       (fst (snd (mount ''r1'' (noDrawerProps\<lparr>position := Some Left\<rparr>) (0::nat))))
       :: (nat, string) DrawerView) = Left
   \<and> anchor_v (Drawer (noDrawerProps\<lparr>position := Some Right\<rparr>)
       (fst (snd (rerender (noDrawerProps\<lparr>position := Some Right\<rparr>)
          (fst (snd (mount ''r1'' (noDrawerProps\<lparr>position := Some Left\<rparr>) (0::nat))), 0))))
       :: (nat, string) DrawerView) = Right
   \<and> anchor_v (Drawer (noDrawerProps\<lparr>position := Some Right\<rparr>)
       (fst (snd (rerender (noDrawerProps\<lparr>position := Some Right\<rparr>)
          (fst (snd (mount ''r1'' (noDrawerProps\<lparr>position := Some Left\<rparr>) (0::nat))), 0))))
       :: (nat, string) DrawerView)
     \<noteq> positionInput (noDrawerProps\<lparr>position := Some Left\<rparr> :: (nat, string) DrawerProps)"
  by (simp add: Drawer_def positionInput_def noDrawerProps_def)

text \<open>
  C6, amended. On every render the surface is anchored at the \<^verbatim>\<open>position\<close> input of
  that render, left when it is omitted, whatever the props \<open>p0\<close> the instance was
  mounted with and whatever renders \<open>ps\<close> came between. The anchor therefore stays
  the same exactly as long as the parent keeps passing the same \<^verbatim>\<open>position\<close>.
\<close>

theorem anchor_follows_position_input:
  "anchor_v (Drawer p (fst (runRenders ps (fst (snd (mount tid p0 w0)), w))))
     = (case position p of None \<Rightarrow> Left | Some a \<Rightarrow> a)"
  by (simp add: Drawer_def positionInput_def)

subsection \<open>Labelling of the surface\<close>

text \<open>The identifier generated at mount is never written again.\<close>

lemma titleId_rerender: "titleId (fst (snd (rerender p (h, w)))) = titleId h"
  by (simp add: rerender_def runEffects_def syncEffect_def)

lemma titleId_handleDrawerToggle: "titleId (fst (snd (handleDrawerToggle p b (h, w)))) = titleId h"
  by (simp add: handleDrawerToggle_apply)

lemma titleId_runRenders: "titleId (fst (runRenders ps (h, w))) = titleId h"
proof (induction ps arbitrary: h w)
  case Nil
  show ?case by simp
next
  case (Cons q qs)
  obtain x h1 w1 where a: "rerender q (h, w) = (x, h1, w1)"
    by (cases "rerender q (h, w)") auto
  have "titleId h1 = titleId h"
    using titleId_rerender [of q h w] by (simp add: a)
  then show ?case
    by (simp add: a Cons.IH)
qed

text \<open>
  C4 does not hold as stated. The empty string is a title the caller supplied, and the
  surface is then not labelled by reference: it carries the generic label.
\<close>

theorem empty_title_counterexample:
  "title (noDrawerProps\<lparr>title := Some []\<rparr> :: (nat, string) DrawerProps) = Some []
   \<and> aria_labelledby (PaperProps_v (Drawer (noDrawerProps\<lparr>title := Some []\<rparr>)
        (fst (snd (mount ''r1'' (noDrawerProps\<lparr>title := Some []\<rparr>) (0::nat))))
        :: (nat, string) DrawerView)) = None
   \<and> aria_label (PaperProps_v (Drawer (noDrawerProps\<lparr>title := Some []\<rparr>)
        (fst (snd (mount ''r1'' (noDrawerProps\<lparr>title := Some []\<rparr>) (0::nat))))
        :: (nat, string) DrawerView)) = Some ''Drawer''"
  by (simp add: Drawer_def titleTruthy_def noDrawerProps_def)

text \<open>
  C4, amended. On every render the surface has exactly one of the two labels. When the
  title is a non-empty string the surface is labelled by reference to the identifier
  generated at mount, which is the \<^verbatim>\<open>id\<close> of the heading that holds the title, and it
  has no generic label. When the title is omitted or is the empty string the surface
  has the generic label \<^verbatim>\<open>Drawer\<close>, no reference, and no heading. The identifier is
  the same on every later render.
\<close>

theorem surface_has_exactly_one_label:
  "PaperProps_v (Drawer p h)
     = (case title p of
          None \<Rightarrow> \<lparr>role = ''dialog'', aria_labelledby = None, aria_label = Some ''Drawer''\<rparr>
        | Some [] \<Rightarrow> \<lparr>role = ''dialog'', aria_labelledby = None, aria_label = Some ''Drawer''\<rparr>
        | Some (c # cs) \<Rightarrow>
            \<lparr>role = ''dialog'', aria_labelledby = Some (titleId h), aria_label = None\<rparr>)
   \<and> heading (Drawer p h)
     = (case title p of
          None \<Rightarrow> None
        | Some [] \<Rightarrow> None
        | Some (c # cs) \<Rightarrow> Some \<lparr>id_t = titleId h, children_t = c # cs\<rparr>)
   \<and> (aria_labelledby (PaperProps_v (Drawer p h)) = None)
     \<noteq> (aria_label (PaperProps_v (Drawer p h)) = None)
   \<and> titleId (fst (runRenders ps (h, w))) = titleId h"
  by (simp add: Drawer_def titleTruthy_def titleId_runRenders split: option.splits list.splits)

subsection \<open>Defaults\<close>

text \<open>The handler reads \<^verbatim>\<open>onOpen\<close> and \<^verbatim>\<open>onClose\<close> and no other prop.\<close>

lemma handleDrawerToggle_cong:
  "onOpen p = onOpen q \<Longrightarrow> onClose p = onClose q \<Longrightarrow>
   handleDrawerToggle p b = handleDrawerToggle q b"
  by (rule ext) (simp add: handleDrawerToggle_def split: prod.splits)

text \<open>
  C7. Omitting an option is the same as passing its default: \<^verbatim>\<open>open\<close> false (at the
  mount and at every later render), \<^verbatim>\<open>openButton\<close> true, \<^verbatim>\<open>closeButton\<close> true,
  \<^verbatim>\<open>position\<close> left, \<^verbatim>\<open>width\<close> 400. The trigger is rendered when \<^verbatim>\<open>openButton\<close> is
  true and is absent when it is false, and the close button likewise with
  \<^verbatim>\<open>closeButton\<close>. With every option omitted the panel mounts closed, anchored left,
  400 wide, with both controls.
\<close>

theorem omitted_options_take_defaults:
  "mount tid (p\<lparr>openProp := None\<rparr>) w = mount tid (p\<lparr>openProp := Some False\<rparr>) w
   \<and> rerender (p\<lparr>openProp := None\<rparr>) (h, w) = rerender (p\<lparr>openProp := Some False\<rparr>) (h, w)
   \<and> Drawer (p\<lparr>openButton := None\<rparr>) h = Drawer (p\<lparr>openButton := Some True\<rparr>) h
   \<and> Drawer (p\<lparr>closeButton := None\<rparr>) h = Drawer (p\<lparr>closeButton := Some True\<rparr>) h
   \<and> Drawer (p\<lparr>position := None\<rparr>) h = Drawer (p\<lparr>position := Some Left\<rparr>) h
   \<and> Drawer (p\<lparr>width := None\<rparr>) h = Drawer (p\<lparr>width := Some (Num 400)\<rparr>) h
   \<and> trigger (Drawer (p\<lparr>openButton := Some True\<rparr>) h) = Some (IconButton (triggerProps p))
   \<and> trigger (Drawer (p\<lparr>openButton := Some False\<rparr>) h) = None
   \<and> dismiss (Drawer (p\<lparr>closeButton := Some True\<rparr>) h) = Some (IconButton (dismissProps p))
   \<and> dismiss (Drawer (p\<lparr>closeButton := Some False\<rparr>) h) = None
   \<and> drawerOpen (fst (snd (mount tid noDrawerProps w))) = False
   \<and> open_v (Drawer noDrawerProps (fst (snd (mount tid noDrawerProps w)))) = False
   \<and> anchor_v (Drawer noDrawerProps h) = Left
   \<and> drawerSize_v (Drawer noDrawerProps h) = \<lparr>width_sx = Some (Num 400), height_sx = None\<rparr>
   \<and> trigger (Drawer noDrawerProps h) = Some (IconButton (triggerProps noDrawerProps))
   \<and> dismiss (Drawer noDrawerProps h) = Some (IconButton (dismissProps noDrawerProps))"
proof -
  have m: "mount tid (p\<lparr>openProp := None\<rparr>) w = mount tid (p\<lparr>openProp := Some False\<rparr>) w"
    by (simp add: mount_apply openInput_def)
  have r: "rerender (p\<lparr>openProp := None\<rparr>) (h, w) = rerender (p\<lparr>openProp := Some False\<rparr>) (h, w)"
    by (simp add: rerender_def runEffects_def syncEffect_def openInput_def)
  have hd: "\<And>f b. handleDrawerToggle (openButton_update f p) b = handleDrawerToggle p b"
    "\<And>f b. handleDrawerToggle (closeButton_update f p) b = handleDrawerToggle p b"
    "\<And>f b. handleDrawerToggle (position_update f p) b = handleDrawerToggle p b"
    "\<And>f b. handleDrawerToggle (width_update f p) b = handleDrawerToggle p b"
    by (rule handleDrawerToggle_cong; simp)+
  have tp: "\<And>f. triggerProps (openButton_update f p) = triggerProps p"
    "\<And>f. triggerProps (closeButton_update f p) = triggerProps p"
    "\<And>f. triggerProps (position_update f p) = triggerProps p"
    "\<And>f. triggerProps (width_update f p) = triggerProps p"
    by (simp_all add: triggerProps_def hd)
  have dp: "\<And>f. dismissProps (openButton_update f p) = dismissProps p"
    "\<And>f. dismissProps (closeButton_update f p) = dismissProps p"
    "\<And>f. dismissProps (position_update f p) = dismissProps p"
    "\<And>f. dismissProps (width_update f p) = dismissProps p"
    by (simp_all add: dismissProps_def hd)
  have ob: "Drawer (p\<lparr>openButton := None\<rparr>) h = Drawer (p\<lparr>openButton := Some True\<rparr>) h"
    by (simp add: Drawer_def tp dp hd openButtonInput_def closeButtonInput_def positionInput_def
        titleTruthy_def drawerSize_def isHorizontal_def widthInput_def)
  have cb: "Drawer (p\<lparr>closeButton := None\<rparr>) h = Drawer (p\<lparr>closeButton := Some True\<rparr>) h"
    by (simp add: Drawer_def tp dp hd openButtonInput_def closeButtonInput_def positionInput_def
        titleTruthy_def drawerSize_def isHorizontal_def widthInput_def)
  have po: "Drawer (p\<lparr>position := None\<rparr>) h = Drawer (p\<lparr>position := Some Left\<rparr>) h"
    by (simp add: Drawer_def tp dp hd openButtonInput_def closeButtonInput_def positionInput_def
        titleTruthy_def drawerSize_def isHorizontal_def widthInput_def)
  have wi: "Drawer (p\<lparr>width := None\<rparr>) h = Drawer (p\<lparr>width := Some (Num 400)\<rparr>) h"
    by (simp add: Drawer_def tp dp hd openButtonInput_def closeButtonInput_def positionInput_def
        titleTruthy_def drawerSize_def isHorizontal_def widthInput_def)
  have gate: "trigger (Drawer (p\<lparr>openButton := Some True\<rparr>) h) = Some (IconButton (triggerProps p))"
    "trigger (Drawer (p\<lparr>openButton := Some False\<rparr>) h) = None"
    "dismiss (Drawer (p\<lparr>closeButton := Some True\<rparr>) h) = Some (IconButton (dismissProps p))"
    "dismiss (Drawer (p\<lparr>closeButton := Some False\<rparr>) h) = None"
    by (simp_all add: Drawer_def tp dp openButtonInput_def closeButtonInput_def)
  have none: "drawerOpen (fst (snd (mount tid noDrawerProps w))) = False"
    "open_v (Drawer noDrawerProps (fst (snd (mount tid noDrawerProps w)))) = False"
    "anchor_v (Drawer noDrawerProps h) = Left"
    "drawerSize_v (Drawer noDrawerProps h) = \<lparr>width_sx = Some (Num 400), height_sx = None\<rparr>"
    "trigger (Drawer noDrawerProps h) = Some (IconButton (triggerProps noDrawerProps))"
    "dismiss (Drawer noDrawerProps h) = Some (IconButton (dismissProps noDrawerProps))"
    by (simp_all add: Drawer_def mount_apply openInput_def openButtonInput_def
        closeButtonInput_def positionInput_def drawerSize_def isHorizontal_def widthInput_def
        noDrawerProps_def)
  show ?thesis
    using m r ob cb po wi gate none by simp
qed

subsection \<open>The trigger and \<^verbatim>\<open>openButtonProps\<close>\<close>

lemma click_IconButton: "click (IconButton props) = (case readProp (onClick_ib props) of
    None \<Rightarrow> (\<lambda>(h, w). (Inr (), h, w)) | Some f \<Rightarrow> f)"
  by (simp add: click_def IconButton_def)

text \<open>
  C9. The trigger is the button built from the component's own \<^verbatim>\<open>onClick\<close> and
  \<^verbatim>\<open>aria-label\<close> with \<^verbatim>\<open>openButtonProps\<close> spread over them. When the bag has an
  \<^verbatim>\<open>onClick\<close> callback \<open>f\<close>, a click on the trigger runs \<open>f\<close> and nothing else: the
  hook cells come back as they were, so the panel does not open, and the outcome and
  the world are those of \<open>f\<close>, with no call of \<^verbatim>\<open>onOpen\<close>. A bag that owns an
  undefined \<^verbatim>\<open>onClick\<close> leaves the trigger without a handler. Only when the bag has no
  \<^verbatim>\<open>onClick\<close>, or there is no bag, is a click the request to open. In the same way an
  \<^verbatim>\<open>aria-label\<close> in the bag replaces the label \<^verbatim>\<open>Open drawer\<close>.
\<close>

theorem caller_onClick_replaces_open_request:
  "trigger (Drawer p h) = (if openButtonInput p then Some (IconButton (triggerProps p)) else None)
   \<and> click (IconButton (triggerProps (p\<lparr>openButtonProps := Some (b\<lparr>onClick_ib := Value f\<rparr>)\<rparr>))) (h, w)
     = (fst (f w), h, snd (f w))
   \<and> click (IconButton (triggerProps (p\<lparr>openButtonProps := Some (b\<lparr>onClick_ib := Undefined\<rparr>)\<rparr>))) (h, w)
     = (Inr (), h, w)
   \<and> click (IconButton (triggerProps (p\<lparr>openButtonProps := Some (b\<lparr>onClick_ib := Absent\<rparr>)\<rparr>)))
     = handleDrawerToggle p True
   \<and> click (IconButton (triggerProps (p\<lparr>openButtonProps := None\<rparr>))) = handleDrawerToggle p True
   \<and> ariaLabel_b (IconButton (triggerProps (p\<lparr>openButtonProps := Some (b\<lparr>ariaLabel_ib := Value s\<rparr>)\<rparr>)))
     = Some s
   \<and> ariaLabel_b (IconButton (triggerProps (p\<lparr>openButtonProps := Some (b\<lparr>ariaLabel_ib := Absent\<rparr>)\<rparr>)))
     = Some ''Open drawer''
   \<and> ariaLabel_b (IconButton (triggerProps (p\<lparr>openButtonProps := None\<rparr>))) = Some ''Open drawer''"
proof -
  have hd: "\<And>x. handleDrawerToggle (p\<lparr>openButtonProps := x\<rparr>) True = handleDrawerToggle p True"
    by (rule handleDrawerToggle_cong; simp)
  have t: "trigger (Drawer p h)
            = (if openButtonInput p then Some (IconButton (triggerProps p)) else None)"
    by (simp add: Drawer_def)
  have c1: "click (IconButton (triggerProps (p\<lparr>openButtonProps := Some (b\<lparr>onClick_ib := Value f\<rparr>)\<rparr>))) (h, w)
            = (fst (f w), h, snd (f w))"
    by (simp add: click_IconButton triggerProps_def spreadButtonProps_def liftButtonProps_def
        liftCallback_def split: prod.splits)
  have c2: "click (IconButton (triggerProps (p\<lparr>openButtonProps := Some (b\<lparr>onClick_ib := Undefined\<rparr>)\<rparr>))) (h, w)
            = (Inr (), h, w)"
    by (simp add: click_IconButton triggerProps_def spreadButtonProps_def liftButtonProps_def)
  have c3: "click (IconButton (triggerProps (p\<lparr>openButtonProps := Some (b\<lparr>onClick_ib := Absent\<rparr>)\<rparr>)))
            = handleDrawerToggle p True"
    by (simp add: click_IconButton triggerProps_def spreadButtonProps_def liftButtonProps_def
        noButtonProps_def hd)
  have c4: "click (IconButton (triggerProps (p\<lparr>openButtonProps := None\<rparr>))) = handleDrawerToggle p True"
    by (simp add: click_IconButton triggerProps_def spreadButtonProps_def noButtonProps_def hd)
  have a1: "ariaLabel_b (IconButton (triggerProps (p\<lparr>openButtonProps := Some (b\<lparr>ariaLabel_ib := Value s\<rparr>)\<rparr>)))
            = Some s"
    by (simp add: IconButton_def triggerProps_def spreadButtonProps_def liftButtonProps_def)
  have a2: "ariaLabel_b (IconButton (triggerProps (p\<lparr>openButtonProps := Some (b\<lparr>ariaLabel_ib := Absent\<rparr>)\<rparr>)))
            = Some ''Open drawer''"
    by (simp add: IconButton_def triggerProps_def spreadButtonProps_def liftButtonProps_def
        noButtonProps_def)
  have a3: "ariaLabel_b (IconButton (triggerProps (p\<lparr>openButtonProps := None\<rparr>))) = Some ''Open drawer''"
    by (simp add: IconButton_def triggerProps_def spreadButtonProps_def noButtonProps_def)
  show ?thesis
    using t c1 c2 c3 c4 a1 a2 a3 by simp
qed

text \<open>
  A click on a trigger whose bag carries the throwing callback, on a panel whose
  \<^verbatim>\<open>onOpen\<close> counts: the panel stays closed and one call is counted, that of the bag.
\<close>

lemma trigger_example:
  "click (IconButton (triggerProps (noDrawerProps
       \<lparr>onOpen := Some countingCallback,
        openButtonProps := Some (noButtonProps\<lparr>onClick_ib := Value throwingCallback\<rparr>)\<rparr>)))
     (\<lparr>drawerOpen = False, titleId = ''r1'', effectDeps = Some False\<rparr>, 0)
   = (Inl ''boom'', \<lparr>drawerOpen = False, titleId = ''r1'', effectDeps = Some False\<rparr>, 1)"
  by (simp add: click_IconButton triggerProps_def spreadButtonProps_def liftButtonProps_def
      liftCallback_def noButtonProps_def throwingCallback_def)

section \<open>Properties of the navigation bar\<close>

text \<open>What the embedded drawer is given, for any \<^verbatim>\<open>drawerProps\<close>: the spread comes last.\<close>

lemma navDrawerProps_fixed_keys:
  "openProp (navDrawerProps np)
     = (case drawerProps np of None \<Rightarrow> Some False
        | Some d \<Rightarrow> readProp (spreadOver (Value False) (open_o d)))"
  "openButton (navDrawerProps np)
     = (case drawerProps np of None \<Rightarrow> Some True
        | Some d \<Rightarrow> readProp (spreadOver (Value True) (openButton_o d)))"
  "openButtonProps (navDrawerProps np)
     = (case drawerProps np of None \<Rightarrow> Some (menuButtonProps np)
        | Some d \<Rightarrow> readProp (spreadOver (Value (menuButtonProps np)) (openButtonProps_o d)))"
  by (simp_all add: navDrawerProps_def readDrawerProps_def spreadDrawerProps_def
      noDrawerPropsObject_def split: option.splits)

text \<open>
  C10 does not hold as stated. The menu is enabled and the caller passes a
  \<^verbatim>\<open>drawerProps\<close> object that owns \<^verbatim>\<open>open: true\<close> and \<^verbatim>\<open>openButton: false\<close>, which the
  declared type admits for an object that is not a literal. The spread comes after the
  bar's own props, so the drawer is given \<^verbatim>\<open>open\<close> true and \<^verbatim>\<open>openButton\<close> false: it
  mounts open and renders no trigger.
\<close>

theorem navbar_override_counterexample:
  "showMenuInput (noNavBarProps
       \<lparr>drawerProps := Some (noDrawerPropsObject
           \<lparr>open_o := Value True, openButton_o := Value False\<rparr>)\<rparr> :: (nat, string) NavBarProps)
   \<and> drawer_nb (NavBar (noNavBarProps
       \<lparr>drawerProps := Some (noDrawerPropsObject
           \<lparr>open_o := Value True, openButton_o := Value False\<rparr>)\<rparr> :: (nat, string) NavBarProps))
     = Some (navDrawerProps (noNavBarProps
       \<lparr>drawerProps := Some (noDrawerPropsObject
           \<lparr>open_o := Value True, openButton_o := Value False\<rparr>)\<rparr>))
   \<and> openProp (navDrawerProps (noNavBarProps
       \<lparr>drawerProps := Some (noDrawerPropsObject
           \<lparr>open_o := Value True, openButton_o := Value False\<rparr>)\<rparr> :: (nat, string) NavBarProps))
     = Some True
   \<and> drawerOpen (fst (snd (mount ''r1'' (navDrawerProps (noNavBarProps
       \<lparr>drawerProps := Some (noDrawerPropsObject
           \<lparr>open_o := Value True, openButton_o := Value False\<rparr>)\<rparr> :: (nat, string) NavBarProps))
       0))) = True
   \<and> trigger (Drawer (navDrawerProps (noNavBarProps
       \<lparr>drawerProps := Some (noDrawerPropsObject
           \<lparr>open_o := Value True, openButton_o := Value False\<rparr>)\<rparr> :: (nat, string) NavBarProps))
       \<lparr>drawerOpen = True, titleId = ''r1'', effectDeps = Some True\<rparr>) = None"
  by (simp add: NavBar_def showMenuInput_def noNavBarProps_def navDrawerProps_fixed_keys
      noDrawerPropsObject_def mount_apply openInput_def Drawer_def openButtonInput_def)

text \<open>
  C10, amended. When the menu is enabled and the \<^verbatim>\<open>drawerProps\<close> object owns none of
  the keys \<^verbatim>\<open>open\<close>, \<^verbatim>\<open>openButton\<close> and \<^verbatim>\<open>openButtonProps\<close> (or there is no
  \<^verbatim>\<open>drawerProps\<close>), the bar renders one drawer and passes to it \<^verbatim>\<open>open\<close> false,
  \<^verbatim>\<open>openButton\<close> true and an \<^verbatim>\<open>openButtonProps\<close> object made of the menu icon, the text
  variant, the large size, the label \<^verbatim>\<open>Open navigation menu\<close> and the colour opposite
  to the bar's. The drawer therefore mounts closed and renders a trigger with that
  configuration, whose click is the request to open. Every object literal of the
  declared type is such an object, since the declared type names none of the three keys.
\<close>

theorem navbar_drawer_starts_closed_with_menu_trigger:
  assumes "showMenuInput np"
    and "case drawerProps np of
           None \<Rightarrow> True
         | Some d \<Rightarrow> open_o d = Absent \<and> openButton_o d = Absent \<and> openButtonProps_o d = Absent"
  shows "drawer_nb (NavBar np) = Some (navDrawerProps np)
   \<and> openProp (navDrawerProps np) = Some False
   \<and> openButton (navDrawerProps np) = Some True
   \<and> openButtonProps (navDrawerProps np)
     = Some \<lparr> variant_ib = Value TextVariant,
              color_ib = Value (if (case color_nb np of None \<Rightarrow> PrimaryColor | Some c \<Rightarrow> c)
                                     = PrimaryColor then Secondary else Primary),
              content_ib = Value MenuIcon, startIcon_ib = Absent, endIcon_ib = Absent,
              loading_ib = Absent, disabled_ib = Absent, onClick_ib = Absent,
              size_ib = Value Large, ariaLabel_ib = Value ''Open navigation menu'' \<rparr>
   \<and> drawerOpen (fst (snd (mount tid (navDrawerProps np) w))) = False
   \<and> trigger (Drawer (navDrawerProps np) h)
     = Some \<lparr> variant_b = TextVariant, startIcon_b = None, endIcon_b = None,
              color_b = (if (case color_nb np of None \<Rightarrow> PrimaryColor | Some c \<Rightarrow> c)
                              = PrimaryColor then Secondary else Primary),
              disabled_b = False, loading_b = False,
              onClick_b = Some (handleDrawerToggle (navDrawerProps np) True),
              size_b = Large, ariaLabel_b = Some ''Open navigation menu'',
              children_b = Some MenuIcon \<rparr>"
proof -
  let ?col = "if (case color_nb np of None \<Rightarrow> PrimaryColor | Some c \<Rightarrow> c) = PrimaryColor
              then Secondary else Primary"
  have a: "drawer_nb (NavBar np) = Some (navDrawerProps np)"
    using assms(1) by (simp add: NavBar_def Let_def)
  have b: "openProp (navDrawerProps np) = Some False"
    "openButton (navDrawerProps np) = Some True"
    "openButtonProps (navDrawerProps np) = Some (menuButtonProps np)"
    using assms(2) by (simp_all add: navDrawerProps_fixed_keys split: option.splits)
  have c: "menuButtonProps np
     = \<lparr> variant_ib = Value TextVariant, color_ib = Value ?col,
         content_ib = Value MenuIcon, startIcon_ib = Absent, endIcon_ib = Absent,
         loading_ib = Absent, disabled_ib = Absent, onClick_ib = Absent,
         size_ib = Value Large, ariaLabel_ib = Value ''Open navigation menu'' \<rparr>"
    by (simp add: menuButtonProps_def noButtonProps_def colorInput_def)
  have d: "drawerOpen (fst (snd (mount tid (navDrawerProps np) w))) = False"
    by (simp add: mount_apply openInput_def b)
  have e: "trigger (Drawer (navDrawerProps np) h)
     = Some \<lparr> variant_b = TextVariant, startIcon_b = None, endIcon_b = None,
              color_b = ?col, disabled_b = False, loading_b = False,
              onClick_b = Some (handleDrawerToggle (navDrawerProps np) True),
              size_b = Large, ariaLabel_b = Some ''Open navigation menu'',
              children_b = Some MenuIcon \<rparr>"
    by (simp add: Drawer_def openButtonInput_def b triggerProps_def c spreadButtonProps_def
        liftButtonProps_def IconButton_def noButtonProps_def)
  show ?thesis
    using a b(1,2) b(3) [unfolded c] d e by simp
qed

text \<open>
  A bar with the menu left at its default and a \<^verbatim>\<open>drawerProps\<close> that sets a title and
  the right anchor: the anchor reaches the drawer, the drawer still mounts closed.
\<close>

theorem navbar_drawer_starts_closed_with_menu_trigger_witness:
  "showMenuInput (noNavBarProps
       \<lparr>drawerProps := Some (noDrawerPropsObject
           \<lparr>title_o := Value ''Menu'', position_o := Value Right\<rparr>)\<rparr> :: (nat, string) NavBarProps)
   \<and> (case drawerProps (noNavBarProps
       \<lparr>drawerProps := Some (noDrawerPropsObject
           \<lparr>title_o := Value ''Menu'', position_o := Value Right\<rparr>)\<rparr> :: (nat, string) NavBarProps) of
         None \<Rightarrow> True
       | Some d \<Rightarrow> open_o d = Absent \<and> openButton_o d = Absent \<and> openButtonProps_o d = Absent)
   \<and> openProp (navDrawerProps (noNavBarProps
       \<lparr>drawerProps := Some (noDrawerPropsObject
           \<lparr>title_o := Value ''Menu'', position_o := Value Right\<rparr>)\<rparr> :: (nat, string) NavBarProps))
     = Some False
   \<and> position (navDrawerProps (noNavBarProps
       \<lparr>drawerProps := Some (noDrawerPropsObject
           \<lparr>title_o := Value ''Menu'', position_o := Value Right\<rparr>)\<rparr> :: (nat, string) NavBarProps))
     = Some Right
   \<and> drawerOpen (fst (snd (mount ''r1'' (navDrawerProps (noNavBarProps
       \<lparr>drawerProps := Some (noDrawerPropsObject
           \<lparr>title_o := Value ''Menu'', position_o := Value Right\<rparr>)\<rparr> :: (nat, string) NavBarProps))
       0))) = False"
proof -
  let ?np = "noNavBarProps
       \<lparr>drawerProps := Some (noDrawerPropsObject
           \<lparr>title_o := Value ''Menu'', position_o := Value Right\<rparr>)\<rparr> :: (nat, string) NavBarProps"
  have s: "showMenuInput ?np"
    by (simp add: showMenuInput_def noNavBarProps_def)
  have o: "case drawerProps ?np of
         None \<Rightarrow> True
       | Some d \<Rightarrow> open_o d = Absent \<and> openButton_o d = Absent \<and> openButtonProps_o d = Absent"
    by (simp add: noNavBarProps_def noDrawerPropsObject_def)
  have p: "position (navDrawerProps ?np) = Some Right"
    by (simp add: navDrawerProps_def readDrawerProps_def spreadDrawerProps_def
        noNavBarProps_def noDrawerPropsObject_def)
  show ?thesis
    using s o p navbar_drawer_starts_closed_with_menu_trigger [OF s o, of "''r1''" 0]
    by simp
qed

end
